theory Spec2Isabelle
  imports Complex_Main "HOL-Library.AList"
begin

section \<open>JavaScript values and exceptions\<close>

text \<open>
  The server and the client exchange JSON data and hand it to user code untyped
  (\<^verbatim>\<open>unknown\<close> in the TypeScript sources). A value is JSON data or
  \<^verbatim>\<open>undefined\<close>; an object is the list of its own properties in
  enumeration order, with distinct keys. Numbers are never computed with, only passed
  on and printed, so they are reals and the printing of a number is a parameter.
\<close>

datatype jsvalue =
    JUndefined
  | JNull
  | JBool bool
  | JNum real
  | JStr string
  | JArr "jsvalue list"
  | JObj "(string \<times> jsvalue) list"

text \<open>
  A thrown value, as a \<^verbatim>\<open>catch (error)\<close> block of the sources looks at it: an
  instance of \<^verbatim>\<open>Error\<close> with the string that is its \<^verbatim>\<open>message\<close>,
  as \<^verbatim>\<open>new Error(msg)\<close> and the engine make them; an instance of
  \<^verbatim>\<open>Error\<close> whose \<^verbatim>\<open>message\<close> was set to some other value; or
  a value that is not an \<^verbatim>\<open>Error\<close>, since user code may throw anything.
\<close>

datatype thrown =
    ErrorInstance string
  | ErrorWithMessage jsvalue
  | NonError jsvalue

text \<open>The engine's own exceptions are instances of \<^verbatim>\<open>TypeError\<close> and
  \<^verbatim>\<open>SyntaxError\<close>, both subclasses of \<^verbatim>\<open>Error\<close>; the
  message texts are those of V8, the engine of Node.js.\<close>

definition TypeError :: "string \<Rightarrow> thrown" where
  "TypeError msg = ErrorInstance msg"

definition SyntaxError :: "string \<Rightarrow> thrown" where
  "SyntaxError msg = ErrorInstance msg"

text \<open>
  \<^verbatim>\<open>String(v)\<close>, which is also the conversion of a template literal
  \<^verbatim>\<open>`${v}`\<close> and of a property key \<^verbatim>\<open>o[v]\<close>. A plain object
  prints through \<^verbatim>\<open>Object.prototype.toString\<close>, unless it has an own property
  \<^verbatim>\<open>toString\<close>: that one is data, not a function, and the conversion throws.
  An array joins the texts of its elements with commas, \<^verbatim>\<open>null\<close> and
  \<^verbatim>\<open>undefined\<close> printing as nothing.
\<close>

fun ToString :: "(real \<Rightarrow> string) \<Rightarrow> jsvalue \<Rightarrow> thrown + string"
  and join_elements :: "(real \<Rightarrow> string) \<Rightarrow> jsvalue list \<Rightarrow> thrown + string"
  and element_text :: "(real \<Rightarrow> string) \<Rightarrow> jsvalue \<Rightarrow> thrown + string"
where
  "ToString nts JUndefined = Inr ''undefined''"
| "ToString nts JNull = Inr ''null''"
| "ToString nts (JBool b) = Inr (if b then ''true'' else ''false'')"
| "ToString nts (JNum n) = Inr (nts n)"
| "ToString nts (JStr s) = Inr s"
| "ToString nts (JArr xs) = join_elements nts xs"
| "ToString nts (JObj kvs) =
     (if ''toString'' \<in> set (map fst kvs)
      then Inl (TypeError ''Cannot convert object to primitive value'')
      else Inr ''[object Object]'')"
| "join_elements nts [] = Inr []"
| "join_elements nts [x] = element_text nts x"
| "join_elements nts (x # y # ys) =
     (case element_text nts x of
        Inl e \<Rightarrow> Inl e
      | Inr s \<Rightarrow>
          (case join_elements nts (y # ys) of
             Inl e \<Rightarrow> Inl e
           | Inr t \<Rightarrow> Inr (s @ '','' @ t)))"
| "element_text nts JUndefined = Inr []"
| "element_text nts JNull = Inr []"
| "element_text nts (JBool b) = ToString nts (JBool b)"
| "element_text nts (JNum n) = ToString nts (JNum n)"
| "element_text nts (JStr s) = ToString nts (JStr s)"
| "element_text nts (JArr xs) = ToString nts (JArr xs)"
| "element_text nts (JObj kvs) = ToString nts (JObj kvs)"

text \<open>
  Reading a property that no built-in prototype defines (\<^verbatim>\<open>name\<close>,
  \<^verbatim>\<open>arguments\<close>, \<^verbatim>\<open>content\<close>, \<^verbatim>\<open>text\<close>,
  \<^verbatim>\<open>type\<close>, \<^verbatim>\<open>properties\<close>, \<^verbatim>\<open>required\<close>):
  an object answers with its own property, every other value but
  \<^verbatim>\<open>null\<close> and \<^verbatim>\<open>undefined\<close> with \<^verbatim>\<open>undefined\<close>.
  The callers look at \<^verbatim>\<open>null\<close> and \<^verbatim>\<open>undefined\<close> themselves.
\<close>

definition own_property :: "(string \<times> jsvalue) list \<Rightarrow> string \<Rightarrow> jsvalue" where
  "own_property kvs k = (case map_of kvs k of Some v \<Rightarrow> v | None \<Rightarrow> JUndefined)"

fun property :: "jsvalue \<Rightarrow> string \<Rightarrow> jsvalue" where
  "property (JObj kvs) k = own_property kvs k"
| "property v k = JUndefined"

fun nullish :: "jsvalue \<Rightarrow> bool" where
  "nullish JUndefined = True"
| "nullish JNull = True"
| "nullish v = False"

text \<open>The operator \<^verbatim>\<open>a ?? b\<close>.\<close>

definition nullish_coalesce :: "jsvalue \<Rightarrow> jsvalue \<Rightarrow> jsvalue" where
  "nullish_coalesce a b = (if nullish a then b else a)"

section \<open>The wire schema translator (schema.ts)\<close>

text \<open>
  \<^verbatim>\<open>zodToJsonSchema\<close> and \<^verbatim>\<open>safeParse\<close> belong to the libraries
  zod-to-json-schema and zod, and \<^verbatim>\<open>JSON.stringify\<close> and the printing of
  numbers to the engine. They are parameters of the model. The library calls and the
  tools run user code, so they take the state of the world \<open>'w\<close> and return it.
  \<^verbatim>\<open>zodToJsonSchema\<close> returns a JSON schema object, given by its properties;
  \<^verbatim>\<open>safeParse\<close> returns either the report \<^verbatim>\<open>error.format()\<close>
  of a failed validation (\<open>Inl\<close>) or the validated data (\<open>Inr\<close>).
\<close>

record ('z, 'w) env =
  zodToJsonSchema :: "'z \<Rightarrow> 'w \<Rightarrow> (string \<times> jsvalue) list \<times> 'w"
  safeParse :: "'z \<Rightarrow> jsvalue \<Rightarrow> 'w \<Rightarrow> (jsvalue + jsvalue) \<times> 'w"
  JSON_stringify :: "jsvalue \<Rightarrow> thrown + jsvalue"
  Number_toString :: "real \<Rightarrow> string"

text \<open>\<^verbatim>\<open>McpToolDefinition['inputSchema']\<close>; its \<^verbatim>\<open>type\<close> is always
  \<^verbatim>\<open>'object'\<close>. \<^verbatim>\<open>properties\<close> and \<^verbatim>\<open>required\<close> are
  values the translator passes on as it gets them.\<close>

record inputSchema =
  schema_type :: string
  properties :: jsvalue
  required :: jsvalue

text \<open>\<^verbatim>\<open>zodToMcpSchema\<close>. What the library returns is an object, so the test
  \<^verbatim>\<open>typeof jsonSchema !== 'object'\<close> fails and the one on
  \<^verbatim>\<open>jsonSchema.type\<close> decides.\<close>

definition zodToMcpSchema :: "('z, 'w) env \<Rightarrow> 'z \<Rightarrow> 'w \<Rightarrow> inputSchema \<times> 'w" where
  "zodToMcpSchema env schema w =
     (case zodToJsonSchema env schema w of
        (jsonSchema, w') \<Rightarrow>
          (if own_property jsonSchema ''type'' \<noteq> JStr ''object''
           then \<lparr>schema_type = ''object'',
                 properties = JObj [(''value'', JObj jsonSchema)],
                 required = JArr [JStr ''value'']\<rparr>
           else \<lparr>schema_type = ''object'',
                 properties = nullish_coalesce (own_property jsonSchema ''properties'') (JObj []),
                 required = own_property jsonSchema ''required''\<rparr>,
           w'))"

text \<open>
  How an awaited call completes: with a value, with a thrown value or a rejection, or
  never, when the promise it returned is never settled.
\<close>

datatype 'a completion = Returns 'a | Throws thrown | Never

text \<open>\<^verbatim>\<open>ToolDefinition\<close> (types.ts). \<^verbatim>\<open>execute\<close> is user code: it is
  given the validated arguments and the world, and the handler awaits it.\<close>

record ('z, 'w) ToolDefinition =
  description :: string
  parameters :: 'z
  execute :: "jsvalue \<Rightarrow> 'w \<Rightarrow> jsvalue completion \<times> 'w"

record McpToolDefinition =
  tool_name :: string
  tool_description :: string
  inputSchema :: inputSchema

definition toolToMcpDefinition ::
  "('z, 'w) env \<Rightarrow> string \<Rightarrow> ('z, 'w) ToolDefinition \<Rightarrow> 'w \<Rightarrow> McpToolDefinition \<times> 'w" where
  "toolToMcpDefinition env n tool w =
     (case zodToMcpSchema env (parameters tool) w of
        (s, w') \<Rightarrow>
          (\<lparr>tool_name = n, tool_description = description tool, inputSchema = s\<rparr>, w'))"

section \<open>The request dispatcher (server.ts)\<close>

datatype rpc_id = IdNum real | IdStr string

text \<open>\<^verbatim>\<open>JsonRpcRequest\<close>; an absent \<^verbatim>\<open>params\<close> is
  \<^verbatim>\<open>undefined\<close>. The handler does not read the protocol tag.\<close>

record request =
  request_id :: rpc_id
  rpc_method :: string
  params :: jsvalue

record rpc_error =
  code :: int
  message :: string
  data :: "jsvalue option"

text \<open>\<^verbatim>\<open>JsonRpcResponse\<close>: \<open>None\<close> is a key the object literal does not
  have. The server's results have one of four shapes; the client reads a result as an
  untyped value.\<close>

record 'r response =
  jsonrpc :: string
  response_id :: rpc_id
  result :: "'r option"
  error :: "rpc_error option"

record McpServerInfo =
  server_name :: string
  server_version :: string

record content_item =
  item_type :: string
  item_text :: jsvalue

datatype payload =
    InitializeResult string jsvalue McpServerInfo
  | EmptyResult
  | ToolsResult "McpToolDefinition list"
  | ContentResult "content_item list"

definition PROTOCOL_VERSION :: string where
  "PROTOCOL_VERSION = ''2024-11-05''"

definition capabilities :: jsvalue where
  "capabilities = JObj [(''tools'', JObj [])]"

definition success :: "rpc_id \<Rightarrow> payload \<Rightarrow> payload response" where
  "success i r = \<lparr>jsonrpc = ''2.0'', response_id = i, result = Some r, error = None\<rparr>"

definition failure :: "rpc_id \<Rightarrow> int \<Rightarrow> string \<Rightarrow> jsvalue option \<Rightarrow> payload response" where
  "failure i c m d =
     \<lparr>jsonrpc = ''2.0'', response_id = i, result = None,
      error = Some \<lparr>code = c, message = m, data = d\<rparr>\<rparr>"

text \<open>
  The registry \<^verbatim>\<open>tools\<close> is a plain object: the list holds its own properties,
  the tools, and \<^verbatim>\<open>tools[key]\<close> also finds what every plain object inherits
  from \<^verbatim>\<open>Object.prototype\<close>. All of those are functions, but
  \<^verbatim>\<open>__proto__\<close>, which is the prototype object itself: every one is truthy
  and has no property \<^verbatim>\<open>parameters\<close>.
\<close>

definition Object_prototype_properties :: "string list" where
  "Object_prototype_properties =
     [''constructor'', ''hasOwnProperty'', ''isPrototypeOf'', ''propertyIsEnumerable'',
      ''toLocaleString'', ''toString'', ''valueOf'', ''__defineGetter__'',
      ''__defineSetter__'', ''__lookupGetter__'', ''__lookupSetter__'', ''__proto__'']"

datatype 'd lookup = Own 'd | Inherited | Missing

definition tools_get :: "(string \<times> 'd) list \<Rightarrow> string \<Rightarrow> 'd lookup" where
  "tools_get tools key =
     (case map_of tools key of
        Some d \<Rightarrow> Own d
      | None \<Rightarrow> if key \<in> set Object_prototype_properties then Inherited else Missing)"

text \<open>\<^verbatim>\<open>const { name: toolName, arguments: args } = params\<close>\<close>

definition destructure_params :: "jsvalue \<Rightarrow> thrown + jsvalue \<times> jsvalue" where
  "destructure_params ps =
     (case ps of
        JUndefined \<Rightarrow>
          Inl (TypeError ''Cannot destructure property 'name' of 'params' as it is undefined.'')
      | JNull \<Rightarrow>
          Inl (TypeError ''Cannot destructure property 'name' of 'params' as it is null.'')
      | _ \<Rightarrow> Inr (property ps ''name'', property ps ''arguments''))"

text \<open>\<^verbatim>\<open>typeof result === 'string' ? result : JSON.stringify(result, null, 2)\<close>\<close>

definition render :: "('z, 'w) env \<Rightarrow> jsvalue \<Rightarrow> thrown + jsvalue" where
  "render env r = (case r of JStr s \<Rightarrow> Inr (JStr s) | _ \<Rightarrow> JSON_stringify env r)"

text \<open>\<^verbatim>\<open>Object.entries(tools).map(([toolName, toolDef]) => toolToMcpDefinition(toolName, toolDef))\<close>\<close>

fun toolList ::
  "('z, 'w) env \<Rightarrow> (string \<times> ('z, 'w) ToolDefinition) list \<Rightarrow> 'w \<Rightarrow> McpToolDefinition list \<times> 'w" where
  "toolList env [] w = ([], w)"
| "toolList env ((n, d) # ts) w =
     (case toolToMcpDefinition env n d w of
        (m, w1) \<Rightarrow> (case toolList env ts w1 of (ms, w2) \<Rightarrow> (m # ms, w2)))"

text \<open>
  A run of the handler gives how it completes, the world it leaves, and the calls of
  \<^verbatim>\<open>execute\<close> it made: the tool's key and the arguments passed. The calls are
  not in the sources; they are what lets a theorem say that no tool ran.
\<close>

type_synonym ('a, 'w) run = "'a \<times> 'w \<times> (string \<times> jsvalue) list"

text \<open>The case \<^verbatim>\<open>'tools/call'\<close> of the switch.\<close>

definition tools_call ::
  "('z, 'w) env \<Rightarrow> (string \<times> ('z, 'w) ToolDefinition) list \<Rightarrow> rpc_id \<Rightarrow> jsvalue \<Rightarrow> 'w
     \<Rightarrow> (payload response completion, 'w) run" where
  "tools_call env tools i ps w =
     (case destructure_params ps of
        Inl e \<Rightarrow> (Throws e, w, [])
      | Inr (toolName, args) \<Rightarrow>
          (case ToString (Number_toString env) toolName of
             Inl e \<Rightarrow> (Throws e, w, [])
           | Inr key \<Rightarrow>
               (case tools_get tools key of
                  Missing \<Rightarrow>
                    (Returns (failure i (- 32602) (''Unknown tool: '' @ key) None), w, [])
                | Inherited \<Rightarrow>
                    (Throws (TypeError ''Cannot read properties of undefined (reading 'safeParse')''),
                     w, [])
                | Own toolDef \<Rightarrow>
                    (case safeParse env (parameters toolDef) (nullish_coalesce args (JObj [])) w of
                       (Inl report, w1) \<Rightarrow>
                         (Returns (failure i (- 32602) ''Invalid parameters'' (Some report)),
                          w1, [])
                     | (Inr parsed, w1) \<Rightarrow>
                         (case execute toolDef parsed w1 of
                            (Never, w2) \<Rightarrow> (Never, w2, [(key, parsed)])
                          | (Throws e, w2) \<Rightarrow> (Throws e, w2, [(key, parsed)])
                          | (Returns r, w2) \<Rightarrow>
                              (case render env r of
                                 Inl e \<Rightarrow> (Throws e, w2, [(key, parsed)])
                               | Inr t \<Rightarrow>
                                   (Returns (success i
                                      (ContentResult [\<lparr>item_type = ''text'', item_text = t\<rparr>])),
                                    w2, [(key, parsed)])))))))"

text \<open>The \<^verbatim>\<open>try\<close> block of \<^verbatim>\<open>handleRequest\<close>: the switch on the method.\<close>

definition handleRequest_try ::
  "('z, 'w) env \<Rightarrow> McpServerInfo \<Rightarrow> (string \<times> ('z, 'w) ToolDefinition) list \<Rightarrow> request \<Rightarrow> 'w
     \<Rightarrow> (payload response completion, 'w) run" where
  "handleRequest_try env serverInfo tools req w =
     (let i = request_id req; m = rpc_method req in
      if m = ''initialize''
      then (Returns (success i (InitializeResult PROTOCOL_VERSION capabilities serverInfo)), w, [])
      else if m = ''notifications/initialized'' then (Returns (success i EmptyResult), w, [])
      else if m = ''tools/list''
      then (case toolList env tools w of
              (ts, w') \<Rightarrow> (Returns (success i (ToolsResult ts)), w', []))
      else if m = ''tools/call'' then tools_call env tools i (params req) w
      else if m = ''ping'' then (Returns (success i EmptyResult), w, [])
      else (Returns (failure i (- 32601) (''Method not found: '' @ m) None), w, []))"

text \<open>
  The \<^verbatim>\<open>catch\<close> block of \<^verbatim>\<open>handleRequest\<close>, with its
  \<^verbatim>\<open>data: error instanceof Error ? error.message : String(error)\<close>. The
  conversion \<^verbatim>\<open>String(error)\<close> can throw, and nothing catches that.
\<close>

definition handleRequest_catch ::
  "('z, 'w) env \<Rightarrow> rpc_id \<Rightarrow> thrown \<Rightarrow> payload response completion" where
  "handleRequest_catch env i e =
     (case e of
        ErrorInstance msg \<Rightarrow> Returns (failure i (- 32603) ''Internal error'' (Some (JStr msg)))
      | ErrorWithMessage v \<Rightarrow> Returns (failure i (- 32603) ''Internal error'' (Some v))
      | NonError v \<Rightarrow>
          (case ToString (Number_toString env) v of
             Inl e' \<Rightarrow> Throws e'
           | Inr s \<Rightarrow> Returns (failure i (- 32603) ''Internal error'' (Some (JStr s)))))"

text \<open>\<^verbatim>\<open>handleRequest\<close>, an \<^verbatim>\<open>async\<close> function: its promise is
  fulfilled with a response (\<open>Returns\<close>), rejected (\<open>Throws\<close>), or never
  settled.\<close>

definition handleRequest ::
  "('z, 'w) env \<Rightarrow> McpServerInfo \<Rightarrow> (string \<times> ('z, 'w) ToolDefinition) list \<Rightarrow> request \<Rightarrow> 'w
     \<Rightarrow> (payload response completion, 'w) run" where
  "handleRequest env serverInfo tools req w =
     (case handleRequest_try env serverInfo tools req w of
        (Returns resp, w', calls) \<Rightarrow> (Returns resp, w', calls)
      | (Never, w', calls) \<Rightarrow> (Never, w', calls)
      | (Throws e, w', calls) \<Rightarrow> (handleRequest_catch env (request_id req) e, w', calls))"

section \<open>Parameter schemas and their JSON schema\<close>

text \<open>
  Modelled from the spec: the parameter schema (a validator of the library zod) and
  \<^verbatim>\<open>zodToJsonSchema\<close> of the library zod-to-json-schema, neither of which is part
  of the sources. Section 9 of the specification makes the schema a closed variant over
  type, bounds, enumeration, nesting, optionality, default and description; section 4.1
  says what the translation keeps of each, that \<^verbatim>\<open>required\<close> lists, in
  declaration order, the fields without a default and without optional marking, and
  that the object without fields has no key \<^verbatim>\<open>required\<close>; the model leaves
  the key out whenever it would list no field.
\<close>

datatype zschema =
    ZString "nat option" "nat option"
  | ZNumber "real option" "real option"
  | ZBoolean
  | ZEnum "string list"
  | ZArray zschema
  | ZObject "(string \<times> zschema) list"
  | ZOptional zschema
  | ZDefault zschema jsvalue
  | ZDescribe zschema string

text \<open>Modelled from the spec: whether a field carries a default value; a description or
  an optional marking around it does not hide it.\<close>

fun has_default :: "zschema \<Rightarrow> bool" where
  "has_default (ZDefault s v) = True"
| "has_default (ZOptional s) = has_default s"
| "has_default (ZDescribe s d) = has_default s"
| "has_default s = False"

text \<open>Modelled from the spec: whether a field carries the optional marking.\<close>

fun optional_marking :: "zschema \<Rightarrow> bool" where
  "optional_marking (ZOptional s) = True"
| "optional_marking (ZDefault s v) = optional_marking s"
| "optional_marking (ZDescribe s d) = optional_marking s"
| "optional_marking s = False"

text \<open>Modelled from the spec: a bound that is set becomes a key of the JSON schema.\<close>

definition bound :: "string \<Rightarrow> real option \<Rightarrow> (string \<times> jsvalue) list" where
  "bound k b = (case b of None \<Rightarrow> [] | Some x \<Rightarrow> [(k, JNum x)])"

text \<open>Modelled from the spec: the names \<^verbatim>\<open>required\<close> lists.\<close>

definition required_fields :: "(string \<times> zschema) list \<Rightarrow> string list" where
  "required_fields fs =
     map fst (filter (\<lambda>(n, s). \<not> has_default s \<and> \<not> optional_marking s) fs)"

text \<open>Modelled from the spec: \<^verbatim>\<open>zodToJsonSchema(schema, { target: 'openApi3' })\<close>,
  the properties of the JSON schema object it returns.\<close>

fun zodToJsonSchema_spec :: "zschema \<Rightarrow> (string \<times> jsvalue) list" where
  "zodToJsonSchema_spec (ZString lo hi) =
     [(''type'', JStr ''string'')] @ bound ''minLength'' (map_option real lo)
       @ bound ''maxLength'' (map_option real hi)"
| "zodToJsonSchema_spec (ZNumber lo hi) =
     [(''type'', JStr ''number'')] @ bound ''minimum'' lo @ bound ''maximum'' hi"
| "zodToJsonSchema_spec ZBoolean = [(''type'', JStr ''boolean'')]"
| "zodToJsonSchema_spec (ZEnum vs) = [(''type'', JStr ''string''), (''enum'', JArr (map JStr vs))]"
| "zodToJsonSchema_spec (ZArray s) =
     [(''type'', JStr ''array''), (''items'', JObj (zodToJsonSchema_spec s))]"
| "zodToJsonSchema_spec (ZObject fs) =
     [(''type'', JStr ''object''),
      (''properties'', JObj (map (\<lambda>(n, s). (n, JObj (zodToJsonSchema_spec s))) fs))]
       @ (if required_fields fs = [] then []
          else [(''required'', JArr (map JStr (required_fields fs)))])"
| "zodToJsonSchema_spec (ZOptional s) = zodToJsonSchema_spec s"
| "zodToJsonSchema_spec (ZDefault s v) = AList.update ''default'' v (zodToJsonSchema_spec s)"
| "zodToJsonSchema_spec (ZDescribe s d) =
     AList.update ''description'' (JStr d) (zodToJsonSchema_spec s)"

text \<open>The names of an object's own properties, and the strings of an array; both are
  empty for every other value.\<close>

fun keys :: "jsvalue \<Rightarrow> string list" where
  "keys (JObj kvs) = map fst kvs"
| "keys v = []"

fun strings :: "jsvalue \<Rightarrow> string list" where
  "strings (JArr xs) = concat (map (\<lambda>x. case x of JStr s \<Rightarrow> [s] | _ \<Rightarrow> []) xs)"
| "strings v = []"

section \<open>The client (client.ts)\<close>

text \<open>
  \<^verbatim>\<open>JSON.parse\<close>: a JSON text is one value between optional whitespace, so a text
  of whitespace only is refused; the grammar of values is a parameter.
\<close>

definition is_whitespace :: "char \<Rightarrow> bool" where
  "is_whitespace c = (c \<in> set [CHR '' '', CHR 0x09, CHR 0x0A, CHR 0x0D])"

definition JSON_parse :: "(string \<Rightarrow> thrown + jsvalue) \<Rightarrow> string \<Rightarrow> thrown + jsvalue" where
  "JSON_parse parse_value s =
     (case dropWhile is_whitespace s of
        [] \<Rightarrow> Inl (SyntaxError ''Unexpected end of JSON input'')
      | _ \<Rightarrow> parse_value s)"

text \<open>Reading the property \<open>k\<close> of \<^verbatim>\<open>null\<close> or \<^verbatim>\<open>undefined\<close>.\<close>

definition read_of_nullish :: "jsvalue \<Rightarrow> string \<Rightarrow> thrown" where
  "read_of_nullish v k =
     TypeError (''Cannot read properties of '' @ (if v = JNull then ''null'' else ''undefined'')
                @ '' (reading '' @ [CHR 0x27] @ k @ [CHR 0x27] @ '')'')"

text \<open>\<^verbatim>\<open>content[0]\<close> for a \<^verbatim>\<open>content\<close> that is neither
  \<^verbatim>\<open>null\<close> nor \<^verbatim>\<open>undefined\<close>.\<close>

fun element0 :: "jsvalue \<Rightarrow> jsvalue" where
  "element0 (JArr []) = JUndefined"
| "element0 (JArr (x # xs)) = x"
| "element0 (JStr []) = JUndefined"
| "element0 (JStr (c # cs)) = JStr [c]"
| "element0 (JObj kvs) = own_property kvs ''0''"
| "element0 v = JUndefined"

text \<open>
  \<^verbatim>\<open>call\<close>, from what \<^verbatim>\<open>await this.request('tools/call', ...)\<close>
  gave, a response (\<open>Inr\<close>) or the error the request was rejected with
  (\<open>Inl\<close>): it returns a value (\<open>Inr\<close>) or throws (\<open>Inl\<close>).
\<close>

definition call ::
  "(string \<Rightarrow> thrown + jsvalue) \<Rightarrow> (real \<Rightarrow> string) \<Rightarrow> thrown + jsvalue response
     \<Rightarrow> thrown + jsvalue" where
  "call parse_value nts awaited =
     (case awaited of
        Inl rejection \<Rightarrow> Inl rejection
      | Inr resp \<Rightarrow>
          (case error resp of
             Some err \<Rightarrow> Inl (ErrorInstance (message err))
           | None \<Rightarrow>
               (let res = (case result resp of None \<Rightarrow> JUndefined | Some r \<Rightarrow> r) in
                if nullish res then Inl (read_of_nullish res ''content'')
                else
                  (let content = property res ''content'' in
                   if nullish content then Inl (read_of_nullish content ''0'')
                   else
                     (let first = element0 content;
                          txt = nullish_coalesce
                                  (if nullish first then JUndefined else property first ''text'')
                                  (JStr [])
                      in case ToString nts txt of
                           Inl e \<Rightarrow> Inr txt
                         | Inr s \<Rightarrow>
                             (case JSON_parse parse_value s of
                                Inl e \<Rightarrow> Inr txt
                              | Inr v \<Rightarrow> Inr v))))))"

text \<open>
  The state of a client that was connected to a subordinate process, so that
  \<^verbatim>\<open>httpUrl\<close> is \<^verbatim>\<open>null\<close>; \<^verbatim>\<open>process\<close> says whether
  the field still holds the process. Each call of \<^verbatim>\<open>request\<close> makes one
  promise; a promise is known by the number of the request that made it, and a
  \<^verbatim>\<open>PendingRequest\<close> by the promise its two continuations settle.
  \<^verbatim>\<open>pendingRequests\<close> is a \<^verbatim>\<open>Map\<close>: a list of entries in insertion
  order. \<^verbatim>\<open>stdin\<close> holds the requests written to the process.
\<close>

datatype promise_state = Unsettled | Fulfilled "jsvalue response" | Rejected thrown

record McpClient =
  process :: bool
  requestId :: nat
  pendingRequests :: "(rpc_id \<times> nat) list"
  promises :: "nat \<Rightarrow> promise_state"
  stdin :: "request list"

definition new_client :: McpClient where
  "new_client =
     \<lparr>process = True, requestId = 0, pendingRequests = [], promises = (\<lambda>h. Unsettled),
      stdin = []\<rparr>"

text \<open>\<^verbatim>\<open>resolve\<close> and \<^verbatim>\<open>reject\<close> of a promise: the first settlement
  stays.\<close>

definition settle :: "nat \<Rightarrow> promise_state \<Rightarrow> (nat \<Rightarrow> promise_state) \<Rightarrow> nat \<Rightarrow> promise_state" where
  "settle h s ps = (if ps h = Unsettled then ps(h := s) else ps)"

text \<open>\<^verbatim>\<open>request\<close>; it returns its promise, which is rejected at once when
  the client holds no process.\<close>

definition request :: "string \<Rightarrow> jsvalue \<Rightarrow> McpClient \<Rightarrow> nat \<times> McpClient" where
  "request m ps c =
     (let i = requestId c + 1 in
      if \<not> process c
      then (i, c\<lparr>requestId := i,
                 promises := (promises c)(i := Rejected (ErrorInstance ''Not connected''))\<rparr>)
      else
        (i, c\<lparr>requestId := i,
              pendingRequests := AList.update (IdNum (real i)) i (pendingRequests c),
              promises := (promises c)(i := Unsettled),
              stdin := stdin c @ [\<lparr>request_id = IdNum (real i), rpc_method = m, params = ps\<rparr>]\<rparr>))"

text \<open>The handler of a line of the process's output that parses to a response; any
  other line changes nothing.\<close>

definition on_line :: "jsvalue response \<Rightarrow> McpClient \<Rightarrow> McpClient" where
  "on_line resp c =
     (case map_of (pendingRequests c) (response_id resp) of
        None \<Rightarrow> c
      | Some pending \<Rightarrow>
          c\<lparr>pendingRequests := AList.delete (response_id resp) (pendingRequests c),
            promises := settle pending (Fulfilled resp) (promises c)\<rparr>)"

text \<open>The handler of the process's \<^verbatim>\<open>exit\<close>.\<close>

definition on_exit :: "McpClient \<Rightarrow> McpClient" where
  "on_exit c =
     c\<lparr>promises :=
         fold (\<lambda>(k, pending). settle pending (Rejected (ErrorInstance ''Process exited'')))
           (pendingRequests c) (promises c),
       pendingRequests := []\<rparr>"

text \<open>\<^verbatim>\<open>close\<close>: the process is killed, which the client learns by the
  \<^verbatim>\<open>exit\<close> event, and the field is cleared.\<close>

definition close :: "McpClient \<Rightarrow> McpClient" where
  "close c = (if process c then c\<lparr>process := False\<rparr> else c)"

text \<open>What happens to a client, and the state after a sequence of events.\<close>

datatype event = Request string jsvalue | Line "jsvalue response" | Exit | Close

fun step :: "event \<Rightarrow> McpClient \<Rightarrow> McpClient" where
  "step (Request m ps) c = snd (request m ps c)"
| "step (Line resp) c = on_line resp c"
| "step Exit c = on_exit c"
| "step Close c = close c"

definition after :: "event list \<Rightarrow> McpClient" where
  "after es = fold step es new_client"

text \<open>A request that was sent and whose promise is not settled.\<close>

definition outstanding :: "McpClient \<Rightarrow> nat \<Rightarrow> bool" where
  "outstanding c h = (1 \<le> h \<and> h \<le> requestId c \<and> promises c h = Unsettled)"

text \<open>
  What ties the map to the promises: the keys are distinct, an entry of the map is a
  request under its own number whose promise is not settled, and every such request
  has its entry.
\<close>

definition pending_inv :: "McpClient \<Rightarrow> bool" where
  "pending_inv c =
     (distinct (map fst (pendingRequests c))
      \<and> (\<forall>k h. map_of (pendingRequests c) k = Some h \<longrightarrow>
             k = IdNum (real h) \<and> outstanding c h)
      \<and> (\<forall>h. outstanding c h \<longrightarrow> map_of (pendingRequests c) (IdNum (real h)) = Some h))"

section \<open>Examples\<close>

text \<open>
  The registry of the server's tests: \<^verbatim>\<open>greet\<close> answers with a greeting,
  \<^verbatim>\<open>error_tool\<close> throws. Two more tools: \<^verbatim>\<open>throws_object\<close> runs
  \<^verbatim>\<open>throw { toString: null }\<close>, and \<^verbatim>\<open>hangs\<close> returns
  \<^verbatim>\<open>new Promise(() => {})\<close>. The world counts the runs of the tools. In
  place of zod, the examples accept a value that has the shape of the schema and return
  it as it is; they never print a number or serialise a result.
\<close>

fun conforms :: "zschema \<Rightarrow> jsvalue \<Rightarrow> bool" where
  "conforms (ZString lo hi) v =
     (case v of
        JStr s \<Rightarrow> (case lo of None \<Rightarrow> True | Some n \<Rightarrow> n \<le> length s)
                  \<and> (case hi of None \<Rightarrow> True | Some n \<Rightarrow> length s \<le> n)
      | _ \<Rightarrow> False)"
| "conforms (ZNumber lo hi) v =
     (case v of
        JNum x \<Rightarrow> (case lo of None \<Rightarrow> True | Some n \<Rightarrow> n \<le> x)
                  \<and> (case hi of None \<Rightarrow> True | Some n \<Rightarrow> x \<le> n)
      | _ \<Rightarrow> False)"
| "conforms ZBoolean v = (case v of JBool b \<Rightarrow> True | _ \<Rightarrow> False)"
| "conforms (ZEnum vs) v = (case v of JStr s \<Rightarrow> s \<in> set vs | _ \<Rightarrow> False)"
| "conforms (ZArray s) v = (case v of JArr xs \<Rightarrow> list_all (conforms s) xs | _ \<Rightarrow> False)"
| "conforms (ZObject fs) v =
     (case v of
        JObj kvs \<Rightarrow> list_all (\<lambda>(n, s). conforms s (own_property kvs n)) fs
      | _ \<Rightarrow> False)"
| "conforms (ZOptional s) v = (v = JUndefined \<or> conforms s v)"
| "conforms (ZDefault s d) v = (v = JUndefined \<or> conforms s v)"
| "conforms (ZDescribe s d) v = conforms s v"

definition test_env :: "(zschema, nat) env" where
  "test_env =
     \<lparr>zodToJsonSchema = (\<lambda>s w. (zodToJsonSchema_spec s, w)),
      safeParse = (\<lambda>s a w. (if conforms s a then Inr a else Inl (JObj [(''_errors'', JArr [])]), w)),
      JSON_stringify = (\<lambda>v. Inr JUndefined),
      Number_toString = (\<lambda>x. [])\<rparr>"

definition greet :: "(zschema, nat) ToolDefinition" where
  "greet =
     \<lparr>description = ''Greet someone'',
      parameters = ZObject [(''name'', ZDescribe (ZString None None) ''Name to greet'')],
      execute = (\<lambda>a w. (case ToString (\<lambda>x. []) (property a ''name'') of
                           Inr n \<Rightarrow> Returns (JStr (''Hello, '' @ n @ ''!''))
                         | Inl e \<Rightarrow> Throws e, Suc w))\<rparr>"

definition error_tool :: "(zschema, nat) ToolDefinition" where
  "error_tool =
     \<lparr>description = ''Tool that throws'',
      parameters = ZObject [],
      execute = (\<lambda>a w. (Throws (ErrorInstance ''Intentional error''), Suc w))\<rparr>"



definition testTools :: "(string \<times> (zschema, nat) ToolDefinition) list" where
  "testTools = [(''greet'', greet), (''error_tool'', error_tool)]"


definition test_server :: McpServerInfo where
  "test_server = \<lparr>server_name = ''test-server'', server_version = ''1.0.0''\<rparr>"

definition tools_call_request :: "string \<Rightarrow> jsvalue \<Rightarrow> request" where
  "tools_call_request n args =
     \<lparr>request_id = IdStr ''custom-id-123'', rpc_method = ''tools/call'',
      params = JObj [(''name'', JStr n), (''arguments'', args)]\<rparr>"

text \<open>Examples of the client: two requests and the answer to the first; a response
  whose content is empty; a grammar of JSON values that knows \<^verbatim>\<open>null\<close> only.\<close>

definition two_requests :: "event list" where
  "two_requests =
     [Request ''tools/call'' (JObj [(''name'', JStr ''greet'')]),
      Request ''ping'' (JObj []),
      Line \<lparr>jsonrpc = ''2.0'', response_id = IdNum 1, result = Some (JObj []), error = None\<rparr>]"

definition empty_content :: "jsvalue response" where
  "empty_content =
     \<lparr>jsonrpc = ''2.0'', response_id = IdNum 1,
      result = Some (JObj [(''content'', JArr [])]), error = None\<rparr>"

definition parse_null :: "string \<Rightarrow> thrown + jsvalue" where
  "parse_null s = (if s = ''null'' then Inr JNull else Inl (SyntaxError ''Unexpected token''))"

definition name_and_count :: "(string \<times> zschema) list" where
  "name_and_count =
     [(''name'', ZString None None), (''count'', ZDefault (ZNumber None None) (JNum 10))]"

section \<open>The dispatcher's responses\<close>

lemma handleRequest_try_returns:
  "handleRequest_try env si tools req w = (Returns resp, w', calls) \<Longrightarrow>
   handleRequest env si tools req w = (Returns resp, w', calls)"
  by (simp add: handleRequest_def)

lemma handleRequest_try_throws:
  "handleRequest_try env si tools req w = (Throws e, w', calls) \<Longrightarrow>
   handleRequest env si tools req w = (handleRequest_catch env (request_id req) e, w', calls)"
  by (simp add: handleRequest_def)

lemma handleRequest_try_never:
  "handleRequest_try env si tools req w = (Never, w', calls) \<Longrightarrow>
   handleRequest env si tools req w = (Never, w', calls)"
  by (simp add: handleRequest_def)


lemma tools_call_missing:
  assumes "destructure_params ps = Inr (toolName, args)"
    and "ToString (Number_toString env) toolName = Inr key"
    and "tools_get tools key = Missing"
  shows "tools_call env tools i ps w =
           (Returns (failure i (- 32602) (''Unknown tool: '' @ key) None), w, [])"
  using assms by (simp add: tools_call_def)

lemma tools_call_inherited:
  assumes "destructure_params ps = Inr (toolName, args)"
    and "ToString (Number_toString env) toolName = Inr key"
    and "tools_get tools key = Inherited"
  shows "tools_call env tools i ps w =
           (Throws (TypeError ''Cannot read properties of undefined (reading 'safeParse')''),
            w, [])"
  using assms by (simp add: tools_call_def)














text \<open>
  C2. A response of the dispatcher carries the id of the request, whatever the method
  and on every path, those of the errors too.
\<close>

theorem handleRequest_echoes_id:
  "fst (handleRequest env si tools req w) = Returns resp \<Longrightarrow> response_id resp = request_id req"
  by (auto simp: handleRequest_def handleRequest_try_def handleRequest_catch_def tools_call_def
        success_def failure_def Let_def
        split: prod.splits sum.splits lookup.splits completion.splits thrown.splits if_splits)

theorem handleRequest_echoes_id_witness:
  "fst (handleRequest test_env test_server testTools
      (tools_call_request ''nonexistent'' (JObj [])) 0)
     = Returns (failure (IdStr ''custom-id-123'') (- 32602) ''Unknown tool: nonexistent'' None)
   \<and> response_id (failure (IdStr ''custom-id-123'') (- 32602) ''Unknown tool: nonexistent'' None)
     = IdStr ''custom-id-123''"
proof -
  have r: "fst (handleRequest test_env test_server testTools
      (tools_call_request ''nonexistent'' (JObj [])) 0)
     = Returns (failure (IdStr ''custom-id-123'') (- 32602) ''Unknown tool: nonexistent'' None)"
    by (simp add: handleRequest_def handleRequest_try_def tools_call_def tools_call_request_def
        destructure_params_def own_property_def tools_get_def testTools_def
        Object_prototype_properties_def)
  show ?thesis
    using r handleRequest_echoes_id [OF r] by (simp add: tools_call_request_def)
qed

text \<open>
  C3. A \<^verbatim>\<open>tools/call\<close> that names a tool of the registry and whose arguments fail
  the validation is answered with code -32602, message \<^verbatim>\<open>Invalid parameters\<close> and
  the validation report as data; the tool's \<^verbatim>\<open>execute\<close> is not called, and the
  world is as the validation left it.
\<close>

theorem tools_call_invalid_parameters:
  assumes "rpc_method req = ''tools/call''"
    and "destructure_params (params req) = Inr (toolName, args)"
    and "ToString (Number_toString env) toolName = Inr key"
    and "map_of tools key = Some toolDef"
    and "safeParse env (parameters toolDef) (nullish_coalesce args (JObj [])) w = (Inl report, w1)"
  shows "handleRequest env si tools req w =
           (Returns (failure (request_id req) (- 32602) ''Invalid parameters'' (Some report)),
            w1, [])"
  using assms
  by (simp add: handleRequest_def handleRequest_try_def tools_call_def tools_get_def)

text \<open>The test that calls \<^verbatim>\<open>greet\<close> with a number for the name.\<close>

theorem tools_call_invalid_parameters_witness:
  "handleRequest test_env test_server testTools
     (tools_call_request ''greet'' (JObj [(''name'', JNum 123)])) 0
   = (Returns (failure (IdStr ''custom-id-123'') (- 32602) ''Invalid parameters''
        (Some (JObj [(''_errors'', JArr [])]))), 0, [])"
proof -
  let ?args = "JObj [(''name'', JNum 123)]"
  let ?req = "tools_call_request ''greet'' ?args"
  have m: "rpc_method ?req = ''tools/call''"
    by (simp add: tools_call_request_def)
  have d: "destructure_params (params ?req) = Inr (JStr ''greet'', ?args)"
    by (simp add: tools_call_request_def destructure_params_def own_property_def)
  have k: "ToString (Number_toString test_env) (JStr ''greet'') = Inr ''greet''"
    by simp
  have t: "map_of testTools ''greet'' = Some greet"
    by (simp add: testTools_def)
  have p: "safeParse test_env (parameters greet) (nullish_coalesce ?args (JObj [])) 0
             = (Inl (JObj [(''_errors'', JArr [])]), 0)"
    by (simp add: test_env_def greet_def nullish_coalesce_def own_property_def)
  show ?thesis
    using tools_call_invalid_parameters [OF m d k t p, of test_server]
    by (simp add: tools_call_request_def)
qed

text \<open>
  C4. A \<^verbatim>\<open>tools/call\<close> for a name that the registry does not hold should be
  answered with code -32602 and \<^verbatim>\<open>Unknown tool: <name>\<close>. For the name
  \<^verbatim>\<open>toString\<close>, which no registry of the tests holds, \<^verbatim>\<open>tools[toolName]\<close>
  finds the function every object inherits, the test \<^verbatim>\<open>!toolDef\<close> lets it pass,
  and reading \<^verbatim>\<open>toolDef.parameters.safeParse\<close> throws: the answer is the internal
  error -32603.
\<close>

theorem tools_call_inherited_name:
  "handleRequest test_env test_server testTools (tools_call_request ''toString'' (JObj [])) 0
   = (Returns (failure (IdStr ''custom-id-123'') (- 32603) ''Internal error''
        (Some (JStr ''Cannot read properties of undefined (reading 'safeParse')''))), 0, [])
   \<and> map_of testTools ''toString'' = None"
  by (simp add: handleRequest_def handleRequest_try_def handleRequest_catch_def tools_call_def
        tools_call_request_def destructure_params_def own_property_def tools_get_def testTools_def
        Object_prototype_properties_def TypeError_def)

text \<open>
  C5. A response of the dispatcher has a result or an error, and never both.
\<close>

theorem handleRequest_result_xor_error:
  "fst (handleRequest env si tools req w) = Returns resp \<Longrightarrow>
   (result resp = None) \<noteq> (error resp = None)"
  by (auto simp: handleRequest_def handleRequest_try_def handleRequest_catch_def tools_call_def
        success_def failure_def Let_def
        split: prod.splits sum.splits lookup.splits completion.splits thrown.splits if_splits)

theorem handleRequest_result_xor_error_witness:
  "fst (handleRequest test_env test_server testTools
      (tools_call_request ''nonexistent'' (JObj [])) 0)
     = Returns (failure (IdStr ''custom-id-123'') (- 32602) ''Unknown tool: nonexistent'' None)
   \<and> result (failure (IdStr ''custom-id-123'') (- 32602) ''Unknown tool: nonexistent'' None) = None
   \<and> error (failure (IdStr ''custom-id-123'') (- 32602) ''Unknown tool: nonexistent'' None) \<noteq> None"
proof -
  have r: "fst (handleRequest test_env test_server testTools
      (tools_call_request ''nonexistent'' (JObj [])) 0)
     = Returns (failure (IdStr ''custom-id-123'') (- 32602) ''Unknown tool: nonexistent'' None)"
    by (simp add: handleRequest_def handleRequest_try_def tools_call_def tools_call_request_def
        destructure_params_def own_property_def tools_get_def testTools_def
        Object_prototype_properties_def)
  show ?thesis
    using r handleRequest_result_xor_error [OF r] by (simp add: failure_def)
qed

section \<open>The translator's schemas\<close>

text \<open>
  C6. When the JSON schema of the parameter schema is not of type
  \<^verbatim>\<open>object\<close>, the translator returns exactly the object schema with the one
  property \<^verbatim>\<open>value\<close>, which holds that JSON schema, and with
  \<^verbatim>\<open>required\<close> \<^verbatim>\<open>["value"]\<close>.
\<close>

theorem zodToMcpSchema_wraps_non_object:
  assumes "zodToJsonSchema env schema w = (jsonSchema, w')"
    and "own_property jsonSchema ''type'' \<noteq> JStr ''object''"
  shows "fst (zodToMcpSchema env schema w) =
           \<lparr>schema_type = ''object'',
            properties = JObj [(''value'', JObj jsonSchema)],
            required = JArr [JStr ''value'']\<rparr>"
  using assms by (simp add: zodToMcpSchema_def)

text \<open>The test that translates \<^verbatim>\<open>z.string()\<close>.\<close>

theorem zodToMcpSchema_wraps_non_object_witness:
  "fst (zodToMcpSchema test_env (ZString None None) 0) =
     \<lparr>schema_type = ''object'',
      properties = JObj [(''value'', JObj [(''type'', JStr ''string'')])],
      required = JArr [JStr ''value'']\<rparr>"
proof -
  have a: "zodToJsonSchema test_env (ZString None None) 0 = ([(''type'', JStr ''string'')], 0)"
    by (simp add: test_env_def bound_def)
  have b: "own_property [(''type'', JStr ''string'')] ''type'' \<noteq> JStr ''object''"
    by (simp add: own_property_def)
  show ?thesis
    by (rule zodToMcpSchema_wraps_non_object [OF a b])
qed

lemma strings_map_JStr: "strings (JArr (map JStr xs)) = xs"
  by (induction xs) auto

lemma required_fields_iff:
  "n \<in> set (required_fields fs) \<longleftrightarrow>
     (\<exists>s. (n, s) \<in> set fs \<and> \<not> has_default s \<and> \<not> optional_marking s)"
  by (force simp: required_fields_def)

lemma map_of_fields:
  "distinct (map fst fs) \<Longrightarrow> (n, s) \<in> set fs \<Longrightarrow>
   map_of (map (\<lambda>(n, s). (n, JObj (zodToJsonSchema_spec s))) fs) n
     = Some (JObj (zodToJsonSchema_spec s))"
  by (induction fs) (auto simp: rev_image_eqI)

lemma zodToMcpSchema_object:
  assumes "zodToJsonSchema env (ZObject fs) w = (zodToJsonSchema_spec (ZObject fs), w')"
  shows "fst (zodToMcpSchema env (ZObject fs) w) =
    \<lparr>schema_type = ''object'',
     properties = JObj (map (\<lambda>(n, s). (n, JObj (zodToJsonSchema_spec s))) fs),
     required = (if required_fields fs = [] then JUndefined
                 else JArr (map JStr (required_fields fs)))\<rparr>"
  using assms by (simp add: zodToMcpSchema_def own_property_def nullish_coalesce_def)

text \<open>
  C7. For an object schema, with the translation of the library as the specification
  describes it: a field with a default value is a property of the output, with its own
  translation, and is not in \<^verbatim>\<open>required\<close>; a field with neither a default nor
  the optional marking is in \<^verbatim>\<open>required\<close>; and for the object schema without
  fields \<^verbatim>\<open>properties\<close> is the empty object and \<^verbatim>\<open>required\<close> holds
  no name. The fields of an object have distinct names.
\<close>

theorem zodToMcpSchema_requiredness:
  assumes "zodToJsonSchema env (ZObject fs) w = (zodToJsonSchema_spec (ZObject fs), w')"
    and "distinct (map fst fs)"
  shows "(\<forall>(n, s) \<in> set fs. has_default s \<longrightarrow>
            property (properties (fst (zodToMcpSchema env (ZObject fs) w))) n
              = JObj (zodToJsonSchema_spec s)
          \<and> n \<in> set (keys (properties (fst (zodToMcpSchema env (ZObject fs) w))))
          \<and> n \<notin> set (strings (required (fst (zodToMcpSchema env (ZObject fs) w)))))
       \<and> (\<forall>(n, s) \<in> set fs. \<not> has_default s \<and> \<not> optional_marking s \<longrightarrow>
            n \<in> set (strings (required (fst (zodToMcpSchema env (ZObject fs) w)))))
       \<and> (fs = [] \<longrightarrow>
            properties (fst (zodToMcpSchema env (ZObject fs) w)) = JObj []
          \<and> strings (required (fst (zodToMcpSchema env (ZObject fs) w))) = [])"
proof -
  have unique: "s' = s" if "(n, s) \<in> set fs" "(n, s') \<in> set fs" for n s s'
    using that assms(2) by (meson eq_key_imp_eq_value)
  have req: "strings (required (fst (zodToMcpSchema env (ZObject fs) w))) = required_fields fs"
  proof (cases "required_fields fs = []")
    case True
    then show ?thesis by (simp add: zodToMcpSchema_object[OF assms(1)])
  next
    case False
    then show ?thesis
      by (simp add: zodToMcpSchema_object[OF assms(1)] strings_map_JStr del: strings.simps)
  qed
  have props: "properties (fst (zodToMcpSchema env (ZObject fs) w)) =
                 JObj (map (\<lambda>(n, s). (n, JObj (zodToJsonSchema_spec s))) fs)"
    by (simp add: zodToMcpSchema_object[OF assms(1)])
  have a: "property (JObj (map (\<lambda>(n, s). (n, JObj (zodToJsonSchema_spec s))) fs)) n
             = JObj (zodToJsonSchema_spec s)
           \<and> n \<in> set (keys (JObj (map (\<lambda>(n, s). (n, JObj (zodToJsonSchema_spec s))) fs)))
           \<and> n \<notin> set (required_fields fs)"
    if "(n, s) \<in> set fs" "has_default s" for n s
  proof -
    have "n \<notin> set (required_fields fs)"
      using that unique by (auto simp: required_fields_iff)
    moreover have "property (JObj (map (\<lambda>(n, s). (n, JObj (zodToJsonSchema_spec s))) fs)) n
                     = JObj (zodToJsonSchema_spec s)"
      using map_of_fields[OF assms(2) that(1)] by (simp add: own_property_def)
    moreover have "n \<in> set (keys (JObj (map (\<lambda>(n, s). (n, JObj (zodToJsonSchema_spec s))) fs)))"
      using that(1) by (force simp: image_image)
    ultimately show ?thesis by simp
  qed
  have b: "n \<in> set (required_fields fs)"
    if "(n, s) \<in> set fs" "\<not> has_default s" "\<not> optional_marking s" for n s
    using that by (auto simp: required_fields_iff)
  have c: "required_fields [] = []"
    by (simp add: required_fields_def)
  show ?thesis
    unfolding req props using a b c by auto
qed

text \<open>The test with a name and a count that defaults to 10.\<close>

theorem zodToMcpSchema_requiredness_witness:
  "''count'' \<in> set (keys (properties (fst (zodToMcpSchema test_env (ZObject name_and_count) 0))))
   \<and> ''count'' \<notin> set (strings (required (fst (zodToMcpSchema test_env (ZObject name_and_count) 0))))
   \<and> ''name'' \<in> set (strings (required (fst (zodToMcpSchema test_env (ZObject name_and_count) 0))))"
proof -
  have a: "zodToJsonSchema test_env (ZObject name_and_count) 0
             = (zodToJsonSchema_spec (ZObject name_and_count), 0)"
    by (simp add: test_env_def)
  have b: "distinct (map fst name_and_count)"
    by (simp add: name_and_count_def)
  have c: "(''count'', ZDefault (ZNumber None None) (JNum 10)) \<in> set name_and_count"
    and d: "(''name'', ZString None None) \<in> set name_and_count"
    by (simp_all add: name_and_count_def)
  have e: "has_default (ZDefault (ZNumber None None) (JNum 10))"
    and f: "\<not> has_default (ZString None None) \<and> \<not> optional_marking (ZString None None)"
    by simp_all
  show ?thesis
    using zodToMcpSchema_requiredness [OF a b] c d e f by blast
qed

section \<open>The client's pending requests and results\<close>

lemma inv_new: "pending_inv new_client"
  by (simp add: pending_inv_def new_client_def outstanding_def)

lemma fold_settle:
  "s \<noteq> Unsettled \<Longrightarrow>
   fold (\<lambda>(k, pending). settle pending s) al ps h =
     (if h \<in> snd ` set al \<and> ps h = Unsettled then s else ps h)"
proof (induction al arbitrary: ps)
  case Nil
  then show ?case by simp
next
  case (Cons p al)
  obtain k b where p: "p = (k, b)" by (cases p)
  have "fold (\<lambda>(k, pending). settle pending s) (p # al) ps h =
          fold (\<lambda>(k, pending). settle pending s) al (settle b s ps) h"
    by (simp add: p)
  also have "\<dots> = (if h \<in> snd ` set al \<and> settle b s ps h = Unsettled then s
                   else settle b s ps h)"
    by (rule Cons.IH[OF Cons.prems])
  also have "\<dots> = (if h \<in> snd ` set (p # al) \<and> ps h = Unsettled then s else ps h)"
    using Cons.prems by (auto simp: settle_def p)
  finally show ?case .
qed

lemma inv_request_unconnected:
  assumes "pending_inv c" and "\<not> process c"
  shows "pending_inv (snd (request m ps c))"
proof -
  let ?i = "Suc (requestId c)"
  let ?c = "snd (request m ps c)"
  have rid: "requestId ?c = ?i"
    and pr: "promises ?c = (promises c)(?i := Rejected (ErrorInstance ''Not connected''))"
    and pe: "pendingRequests ?c = pendingRequests c"
    using assms(2) by (simp_all add: request_def Let_def)
  have out: "outstanding ?c h \<longleftrightarrow> outstanding c h" for h
    by (auto simp: outstanding_def rid pr)
  show ?thesis
    using assms(1) unfolding pending_inv_def out pe by simp
qed

lemma inv_request_connected:
  assumes "pending_inv c" and "process c"
  shows "pending_inv (snd (request m ps c))"
proof -
  let ?i = "Suc (requestId c)"
  let ?c = "snd (request m ps c)"
  have rid: "requestId ?c = ?i" and pr: "promises ?c = (promises c)(?i := Unsettled)"
    and pe: "pendingRequests ?c = AList.update (IdNum (real ?i)) ?i (pendingRequests c)"
    using assms(2) by (simp_all add: request_def Let_def)
  have out: "outstanding ?c h \<longleftrightarrow> outstanding c h \<or> h = ?i" for h
    by (auto simp: outstanding_def rid pr)
  have mp: "map_of (pendingRequests ?c) = (map_of (pendingRequests c))(IdNum (real ?i) \<mapsto> ?i)"
    by (simp add: pe update_conv')
  have fresh: "\<not> outstanding c ?i" by (simp add: outstanding_def)
  show ?thesis
    unfolding pending_inv_def
  proof (intro conjI allI impI)
    show "distinct (map fst (pendingRequests ?c))"
      using assms(1) by (simp add: pe distinct_update pending_inv_def)
  next
    fix k h assume "map_of (pendingRequests ?c) k = Some h"
    then show "k = IdNum (real h)" "outstanding ?c h"
      using assms(1) unfolding pending_inv_def mp out by (auto split: if_splits)
  next
    fix h assume "outstanding ?c h"
    then show "map_of (pendingRequests ?c) (IdNum (real h)) = Some h"
      using assms(1) fresh unfolding pending_inv_def mp out by auto
  qed
qed

lemma inv_request: "pending_inv c \<Longrightarrow> pending_inv (snd (request m ps c))"
  by (cases "process c") (simp_all add: inv_request_connected inv_request_unconnected)

lemma inv_close: "pending_inv c \<Longrightarrow> pending_inv (close c)"
proof -
  have "outstanding (close c) h \<longleftrightarrow> outstanding c h" for h
    by (simp add: close_def outstanding_def)
  moreover have "pendingRequests (close c) = pendingRequests c"
    by (simp add: close_def)
  ultimately show "pending_inv c \<Longrightarrow> pending_inv (close c)"
    unfolding pending_inv_def by simp
qed

lemma inv_on_line:
  assumes "pending_inv c"
  shows "pending_inv (on_line resp c)"
proof (cases "map_of (pendingRequests c) (response_id resp)")
  case None
  then show ?thesis using assms by (simp add: on_line_def)
next
  case (Some p)
  let ?k = "response_id resp"
  let ?c = "on_line resp c"
  have kp: "?k = IdNum (real p)" and op: "outstanding c p"
    using assms Some unfolding pending_inv_def by blast+
  have rid: "requestId ?c = requestId c"
    and pr: "promises ?c = (promises c)(p := Fulfilled resp)"
    and pe: "pendingRequests ?c = AList.delete ?k (pendingRequests c)"
    using op by (simp_all add: on_line_def Some settle_def outstanding_def)
  have out: "outstanding ?c h \<longleftrightarrow> outstanding c h \<and> h \<noteq> p" for h
    by (auto simp: outstanding_def rid pr)
  have mp: "map_of (pendingRequests ?c) = (map_of (pendingRequests c))(?k := None)"
    by (simp add: pe delete_conv')
  show ?thesis
    unfolding pending_inv_def
  proof (intro conjI allI impI)
    show "distinct (map fst (pendingRequests ?c))"
      using assms by (simp add: pe distinct_delete pending_inv_def)
  next
    fix k h assume "map_of (pendingRequests ?c) k = Some h"
    then show "k = IdNum (real h)" "outstanding ?c h"
      using assms kp unfolding pending_inv_def mp out by (auto split: if_splits)
  next
    fix h assume "outstanding ?c h"
    then show "map_of (pendingRequests ?c) (IdNum (real h)) = Some h"
      using assms kp unfolding pending_inv_def mp out by auto
  qed
qed

lemma outstanding_on_exit:
  assumes "pending_inv c"
  shows "\<not> outstanding (on_exit c) h"
proof
  assume a: "outstanding (on_exit c) h"
  then have "outstanding c h"
    by (auto simp: outstanding_def on_exit_def fold_settle split: if_splits)
  then have "map_of (pendingRequests c) (IdNum (real h)) = Some h"
    using assms unfolding pending_inv_def by blast
  then have "h \<in> snd ` set (pendingRequests c)"
    by (metis map_of_SomeD snd_conv image_eqI)
  then show False
    using a by (auto simp: outstanding_def on_exit_def fold_settle split: if_splits)
qed

lemma inv_on_exit:
  assumes "pending_inv c"
  shows "pending_inv (on_exit c)"
  unfolding pending_inv_def
  using outstanding_on_exit[OF assms] by (simp add: on_exit_def)

lemma inv_step: "pending_inv c \<Longrightarrow> pending_inv (step e c)"
  by (cases e) (simp_all add: inv_request inv_on_line inv_on_exit inv_close)

lemma inv_fold: "pending_inv c \<Longrightarrow> pending_inv (fold step es c)"
  by (induction es arbitrary: c) (simp_all add: inv_step)

lemma inv_after: "pending_inv (after es)"
  by (simp add: after_def inv_fold inv_new)

text \<open>
  C9. Whatever requests, lines, exits and closes came before: when the process exits, the map
  of pending requests is emptied, the promise of each of its entries is rejected with
  the error \<^verbatim>\<open>Process exited\<close>, so is every request that was sent and not yet
  settled, and no request that was sent is left unsettled.
\<close>

theorem on_exit_rejects_pending:
  "pendingRequests (on_exit (after es)) = []
   \<and> (\<forall>(k, pending) \<in> set (pendingRequests (after es)).
        promises (on_exit (after es)) pending = Rejected (ErrorInstance ''Process exited''))
   \<and> (\<forall>h. outstanding (after es) h \<longrightarrow>
        promises (on_exit (after es)) h = Rejected (ErrorInstance ''Process exited''))
   \<and> (\<forall>h. \<not> outstanding (on_exit (after es)) h)"
proof -
  have inv: "pending_inv (after es)" by (rule inv_after)
  have entries: "outstanding (after es) h"
    if "(k, h) \<in> set (pendingRequests (after es))" for k h
    using inv that unfolding pending_inv_def by (metis map_of_is_SomeI)
  have listed: "h \<in> snd ` set (pendingRequests (after es))" if "outstanding (after es) h" for h
    using inv that unfolding pending_inv_def by (metis map_of_SomeD snd_conv image_eqI)
  have rejected: "promises (on_exit (after es)) h = Rejected (ErrorInstance ''Process exited'')"
    if "outstanding (after es) h" for h
    using that listed[OF that] by (simp add: on_exit_def fold_settle outstanding_def)
  have "pendingRequests (on_exit (after es)) = []"
    by (simp add: on_exit_def)
  moreover have "\<forall>(k, pending) \<in> set (pendingRequests (after es)).
        promises (on_exit (after es)) pending = Rejected (ErrorInstance ''Process exited'')"
    using entries rejected by blast
  moreover have "\<forall>h. \<not> outstanding (on_exit (after es)) h"
    using outstanding_on_exit[OF inv] by blast
  ultimately show ?thesis using rejected by blast
qed

text \<open>Two requests were sent and the first was answered when the process exits.\<close>

theorem on_exit_rejects_pending_witness:
  "pendingRequests (after two_requests) = [(IdNum 2, 2)]
   \<and> outstanding (after two_requests) 2
   \<and> promises (on_exit (after two_requests)) 2 = Rejected (ErrorInstance ''Process exited'')"
proof -
  have a: "pendingRequests (after two_requests) = [(IdNum 2, 2)]"
    by (simp add: after_def two_requests_def new_client_def request_def on_line_def settle_def
        Let_def)
  have b: "outstanding (after two_requests) 2"
    by (simp add: after_def two_requests_def new_client_def request_def on_line_def settle_def
        Let_def outstanding_def)
  show ?thesis
    using on_exit_rejects_pending [of two_requests] a b by blast
qed

text \<open>
  C10. For a response without error whose result has an empty
  \<^verbatim>\<open>content\<close> array, \<^verbatim>\<open>call\<close> returns the empty string and does not
  throw: there is no first item, the text defaults to the empty string, which
  \<^verbatim>\<open>JSON.parse\<close> refuses, and the text itself is returned.
\<close>

theorem call_empty_content:
  assumes "error resp = None"
    and "result resp = Some res"
    and "property res ''content'' = JArr []"
  shows "call parse_value nts (Inr resp) = Inr (JStr [])
       \<and> JSON_parse parse_value [] = Inl (SyntaxError ''Unexpected end of JSON input'')"
proof -
  have "\<not> nullish res" using assms(3) by (cases res) auto
  then show ?thesis
    using assms by (simp add: call_def nullish_coalesce_def JSON_parse_def)
qed

theorem call_empty_content_witness:
  "call parse_null (\<lambda>x. []) (Inr empty_content) = Inr (JStr [])"
proof -
  have a: "error empty_content = None"
    and b: "result empty_content = Some (JObj [(''content'', JArr [])])"
    by (simp_all add: empty_content_def)
  have c: "property (JObj [(''content'', JArr [])]) ''content'' = JArr []"
    by (simp add: own_property_def)
  show ?thesis
    using call_empty_content [OF a b c] by simp
qed

end
